theory Spec2Isabelle
  imports Complex_Main
begin

section \<open>Python strings and slices\<close>

text \<open>
  A Python \<open>str\<close> is modelled as a \<open>string\<close> whose characters are the code points
  0..255 (Latin-1); code points beyond that range are outside the model.
  \<open>str.isdigit\<close> is true of the ten decimal digits and, in this range, of the
  superscripts U+00B2, U+00B3 and U+00B9.  \<open>int(ch)\<close> accepts the decimal digits only.
\<close>

definition is_decimal :: "char \<Rightarrow> bool" where
  "is_decimal c = ((48::nat) \<le> of_char c \<and> of_char c \<le> (57::nat))"

definition isdigit :: "char \<Rightarrow> bool" where
  "isdigit c = (is_decimal c \<or> (of_char c :: nat) \<in> {178, 179, 185})"

text \<open>\<open>xs[k:]\<close> and \<open>xs[:k]\<close>: a negative bound counts from the end, and every bound
  is clipped to the list.\<close>

definition slice_from :: "'a list \<Rightarrow> int \<Rightarrow> 'a list" where
  "slice_from xs k =
     (if k < 0 then drop (nat (int (length xs) + k)) xs else drop (nat k) xs)"

definition slice_to :: "'a list \<Rightarrow> int \<Rightarrow> 'a list" where
  "slice_to xs k =
     (if k < 0 then take (nat (int (length xs) + k)) xs else take (nat k) xs)"

text \<open>\<open>s * n\<close> for a one-character string: empty when \<open>n \<le> 0\<close>.\<close>

definition str_times :: "char \<Rightarrow> int \<Rightarrow> string" where
  "str_times c n = replicate (nat n) c"

section \<open>tokenizer.py: configuration and masking\<close>

text \<open>
  The caller's configuration is a dictionary in which any top-level key may be absent;
  \<open>_setup_default_config\<close> fills in every absent top-level key (a shallow merge: a
  supplied \<open>token_prefixes\<close> dictionary replaces the default one as a whole).
\<close>

record tok_overrides =
  o_name_list :: "string list option"
  o_city_list :: "string list option"
  o_mask_digits :: "int option"
  o_token_prefixes :: "(string \<times> string) list option"

record tok_config =
  name_list :: "string list"
  city_list :: "string list"
  mask_digits :: int
  token_prefixes :: "(string \<times> string) list"

definition tok_defaults :: tok_config where
  "tok_defaults = \<lparr>
     name_list = [''Aarav'', ''Vivaan'', ''Kabir'', ''Rohan'', ''Arjun'', ''Aditya'', ''Vihaan'',
       ''Ishaan'', ''Reyansh'', ''Atharv'', ''Ananya'', ''Ishita'', ''Kavya'', ''Riya'', ''Sanya'',
       ''Meera'', ''Diya'', ''Myra'', ''Aadhya'', ''Navya'', ''Joe'', ''Alex'', ''Mack'', ''Zara'',
       ''Noah'', ''Oliver'', ''James'', ''Liam'', ''Emma'', ''Olivia'', ''Ava'', ''Sophia'',
       ''Isabella'', ''Henry'', ''Lucas'', ''Leo'', ''Max'', ''Finn'', ''Ethan'', ''Ravi'',
       ''Tashvi'', ''Aarav'', ''Aashi'', ''Pooja'', ''Pranav'', ''Priyanshi'', ''Priyansh'',
       ''Piyush'', ''Shorya''],
     city_list = [''Mumbai'', ''Delhi'', ''Bengaluru'', ''Hyderabad'', ''Chennai'', ''Pune'',
       ''Kolkata'', ''Jaipur'', ''Ahmedabad'', ''Lucknow'', ''Surat'', ''Indore'', ''Bhopal'',
       ''Nagpur'', ''Noida'', ''Visakhapatnam'', ''Chandigarh'', ''California'', ''Texas'',
       ''Florida'', ''New York'', ''Maryland'', ''Colorado''],
     mask_digits = 4,
     token_prefixes = [(''aadhaar'', ''AAD''), (''ssn'', ''SSN''), (''card'', ''CARD''),
       (''receiver_card'', ''RCARD'')] \<rparr>"

definition tok_setup_default_config :: "tok_overrides \<Rightarrow> tok_config" where
  "tok_setup_default_config ov = \<lparr>
     name_list = (case o_name_list ov of None \<Rightarrow> name_list tok_defaults | Some v \<Rightarrow> v),
     city_list = (case o_city_list ov of None \<Rightarrow> city_list tok_defaults | Some v \<Rightarrow> v),
     mask_digits = (case o_mask_digits ov of None \<Rightarrow> mask_digits tok_defaults | Some v \<Rightarrow> v),
     token_prefixes =
       (case o_token_prefixes ov of None \<Rightarrow> token_prefixes tok_defaults | Some v \<Rightarrow> v) \<rparr>"

definition no_overrides :: tok_overrides where
  "no_overrides = \<lparr> o_name_list = None, o_city_list = None, o_mask_digits = None,
     o_token_prefixes = None \<rparr>"

text \<open>\<open>_mask_keep_last(num, last=None)\<close>.\<close>

definition mask_keep_last :: "tok_config \<Rightarrow> string \<Rightarrow> int option \<Rightarrow> string" where
  "mask_keep_last cfg num last_arg =
     (let last = (case last_arg of None \<Rightarrow> mask_digits cfg | Some l \<Rightarrow> l);
          s = filter isdigit num
      in if int (length s) \<le> last then s
         else str_times CHR ''*'' (int (length s) - last) @ slice_from s (- last))"

text \<open>\<open>_mask_keep_first_last(num, keep=2)\<close>.\<close>

definition mask_keep_first_last :: "string \<Rightarrow> int \<Rightarrow> string" where
  "mask_keep_first_last num keep =
     (let s = filter isdigit num
      in if int (length s) \<le> keep * 2 then s
         else slice_to s keep @ str_times CHR ''*'' (int (length s) - keep * 2)
              @ slice_from s (- keep))"

section \<open>Python values, errors and the libraries the code calls\<close>

datatype py_error = KeyError | ValueError | TypeError | ZeroDivisionError | AttributeError
  | IndexError

definition bind_err :: "py_error + 'a \<Rightarrow> ('a \<Rightarrow> py_error + 'b) \<Rightarrow> py_error + 'b" where
  "bind_err m f = (case m of Inl e \<Rightarrow> Inl e | Inr v \<Rightarrow> f v)"

text \<open>
  A Python \<open>float\<close> is modelled as an exact rational or NaN (the marker pandas uses for
  a missing number); binary rounding error and the infinities are outside the model.
  A cell of a table is \<open>None\<close>, a string, an integer or a float.
\<close>

datatype pyfloat = Fin rat | NaN

datatype pyval = PNone | PStr string | PInt int | PFloat pyfloat

text \<open>
  The standard library is not part of the repository; what the code calls is taken as
  a parameter.  \<open>sha256_int s\<close> stands for
  \<open>int(hashlib.sha256(s.encode()).hexdigest(), 16)\<close>; \<open>rng_seed\<close> for
  \<open>random.Random(seed)\<close>, \<open>rng_random\<close> for its \<open>random()\<close> and \<open>rng_randbelow\<close>
  for the bounded draw behind \<open>randint\<close> and \<open>choice\<close>, each returning the generator's
  next state; \<open>today_year\<close> for \<open>date.today().year\<close>; \<open>getrandbits128\<close> for the value
  \<open>random.getrandbits(128)\<close> returns in this run; \<open>float_of_str\<close> for \<open>float(s)\<close> on a
  string (\<open>None\<close> when it raises ValueError) and \<open>str_of_float\<close> for \<open>str(x)\<close> on a
  finite float.
\<close>

record 'g pylib =
  sha256_int :: "string \<Rightarrow> nat"
  rng_seed :: "nat \<Rightarrow> 'g"
  rng_random :: "'g \<Rightarrow> rat \<times> 'g"
  rng_randbelow :: "'g \<Rightarrow> nat \<Rightarrow> nat \<times> 'g"
  today_year :: int
  getrandbits128 :: nat
  float_of_str :: "string \<Rightarrow> pyfloat option"
  str_of_float :: "rat \<Rightarrow> string"


subsection \<open>Rendering and reading numbers\<close>

definition digit_char :: "nat \<Rightarrow> char" where
  "digit_char d = char_of (48 + d)"

fun str_nat :: "nat \<Rightarrow> string" where
  "str_nat n = (if n < 10 then [digit_char n] else str_nat (n div 10) @ [digit_char (n mod 10)])"

declare str_nat.simps [simp del]

definition str_int :: "int \<Rightarrow> string" where
  "str_int i = (if i < 0 then CHR ''-'' # str_nat (nat (- i)) else str_nat (nat i))"

definition hex_char :: "nat \<Rightarrow> char" where
  "hex_char d = (if d < 10 then char_of (48 + d) else char_of (87 + d))"

fun hex_digits :: "nat \<Rightarrow> string" where
  "hex_digits n = (if n < 16 then [hex_char n] else hex_digits (n div 16) @ [hex_char (n mod 16)])"

declare hex_digits.simps [simp del]

text \<open>\<open>hex(n)\<close> for a non-negative integer.\<close>

definition py_hex :: "nat \<Rightarrow> string" where
  "py_hex n = ''0x'' @ hex_digits n"

text \<open>\<open>s.zfill(w)\<close>: zeros go after a leading sign.\<close>

definition zfill :: "nat \<Rightarrow> string \<Rightarrow> string" where
  "zfill w s =
     (case s of
        c # rest \<Rightarrow>
          if c = CHR ''+'' \<or> c = CHR ''-''
          then c # replicate (w - length s) CHR ''0'' @ rest
          else replicate (w - length s) CHR ''0'' @ s
      | [] \<Rightarrow> replicate w CHR ''0'')"

text \<open>\<open>f"{i:0wd}"\<close>: the sign counts towards the width.\<close>

definition fmt_int :: "nat \<Rightarrow> int \<Rightarrow> string" where
  "fmt_int w i = zfill w (str_int i)"

text \<open>\<open>int(ch)\<close> on one character.\<close>

definition int_of_char :: "char \<Rightarrow> py_error + nat" where
  "int_of_char c = (if is_decimal c then Inr (of_char c - 48) else Inl ValueError)"

fun map_err :: "('a \<Rightarrow> py_error + 'b) \<Rightarrow> 'a list \<Rightarrow> py_error + 'b list" where
  "map_err f [] = Inr []"
| "map_err f (x # xs) =
     (case f x of Inl e \<Rightarrow> Inl e
      | Inr y \<Rightarrow> (case map_err f xs of Inl e \<Rightarrow> Inl e | Inr ys \<Rightarrow> Inr (y # ys)))"

text \<open>\<open>int(s)\<close> on a string of an optional minus sign and decimal digits, the only shape
  the code passes; anything else raises ValueError.\<close>

definition int_of_str :: "string \<Rightarrow> py_error + int" where
  "int_of_str s =
     (let (neg, body) = (case s of c # r \<Rightarrow> if c = CHR ''-'' then (True, r) else (False, s)
                         | [] \<Rightarrow> (False, s))
      in if body = [] then Inl ValueError
         else (case map_err int_of_char body of
                 Inl e \<Rightarrow> Inl e
               | Inr ds \<Rightarrow> let n = foldl (\<lambda>acc d. acc * 10 + int d) 0 ds
                           in Inr (if neg then - n else n)))"

text \<open>\<open>round(x, 2)\<close> on the exact value, ties to even.\<close>

definition round_half_even :: "rat \<Rightarrow> int" where
  "round_half_even y =
     (let f = \<lfloor>y\<rfloor>; d = y - of_int f
      in if d < 1 / 2 then f else if 1 / 2 < d then f + 1 else if even f then f else f + 1)"

definition round2 :: "rat \<Rightarrow> rat" where
  "round2 x = of_int (round_half_even (x * 100)) / 100"

section \<open>Main.py: configuration\<close>

record gen_overrides =
  o_names :: "(string \<times> string list) list option"
  o_cities :: "string list option"
  o_isps :: "string list option"
  o_card_brands :: "(string \<times> string) list option"
  o_amount_ranges :: "(string \<times> rat \<times> rat \<times> rat) list option"
  o_fraud_indicators :: "(string \<times> rat) list option"

record gen_config =
  names :: "(string \<times> string list) list"
  cities :: "string list"
  isps :: "string list"
  card_brands :: "(string \<times> string) list"
  amount_ranges :: "(string \<times> rat \<times> rat \<times> rat) list"
  fraud_indicators :: "(string \<times> rat) list"

definition gen_defaults :: gen_config where
  "gen_defaults = \<lparr>
     names = [(''male'', [''Aarav'', ''Vivaan'', ''Kabir'', ''Rohan'', ''Arjun'', ''Aditya'',
         ''Vihaan'', ''Ishaan'', ''Reyansh'', ''Atharv'', ''Noah'', ''Oliver'', ''James'', ''Liam'',
         ''Henry'', ''Lucas'', ''Leo'', ''Max'', ''Finn'', ''Ethan'', ''Ravi'', ''Pranav'',
         ''Priyansh'', ''Piyush'']),
       (''female'', [''Ananya'', ''Ishita'', ''Kavya'', ''Riya'', ''Sanya'', ''Meera'', ''Diya'',
         ''Myra'', ''Aadhya'', ''Navya'', ''Zara'', ''Emma'', ''Olivia'', ''Ava'', ''Sophia'',
         ''Isabella'', ''Aashi'', ''Pooja'', ''Priyanshi'', ''Tashvi''])],
     cities = [''Mumbai'', ''Delhi'', ''Bengaluru'', ''Hyderabad'', ''Chennai'', ''Pune'',
       ''Kolkata'', ''Jaipur'', ''Ahmedabad'', ''Lucknow'', ''Surat'', ''Indore'', ''Bhopal'',
       ''Nagpur'', ''Noida'', ''Visakhapatnam'', ''Chandigarh''],
     isps = [''Jio'', ''Airtel'', ''BSNL'', ''Vodafone'', ''ACT'', ''Hathway'', ''Verizon'',
       ''T-Mobile'', ''AT&T'', ''Spectrum'', ''Comcast''],
     card_brands = [(''visa'', ''4''), (''mastercard'', ''5''), (''amex'', ''3'')],
     amount_ranges = [(''TransactionAmount'', 6 / 10, 17 / 10, 50),
       (''SenderBankBalance'', 8 / 10, 13 / 10, 100),
       (''ReceiverBankBalance'', 8 / 10, 13 / 10, 100),
       (''SenderAnnualIncome'', 85 / 100, 125 / 100, 50000),
       (''ReceiverAnnualIncome'', 85 / 100, 125 / 100, 50000)],
     fraud_indicators = [(''high_amount_threshold'', 8000),
       (''high_amount_risk_increase'', 25 / 100), (''new_account_risk_increase'', 15 / 100),
       (''base_fraud_probability'', 1 / 10), (''max_fraud_probability'', 9 / 10)] \<rparr>"

definition gen_setup_default_config :: "gen_overrides \<Rightarrow> gen_config" where
  "gen_setup_default_config ov = \<lparr>
     names = (case o_names ov of None \<Rightarrow> names gen_defaults | Some v \<Rightarrow> v),
     cities = (case o_cities ov of None \<Rightarrow> cities gen_defaults | Some v \<Rightarrow> v),
     isps = (case o_isps ov of None \<Rightarrow> isps gen_defaults | Some v \<Rightarrow> v),
     card_brands = (case o_card_brands ov of None \<Rightarrow> card_brands gen_defaults | Some v \<Rightarrow> v),
     amount_ranges =
       (case o_amount_ranges ov of None \<Rightarrow> amount_ranges gen_defaults | Some v \<Rightarrow> v),
     fraud_indicators =
       (case o_fraud_indicators ov of None \<Rightarrow> fraud_indicators gen_defaults | Some v \<Rightarrow> v) \<rparr>"

definition gen_no_overrides :: gen_overrides where
  "gen_no_overrides = \<lparr> o_names = None, o_cities = None, o_isps = None, o_card_brands = None,
     o_amount_ranges = None, o_fraud_indicators = None \<rparr>"

text \<open>\<open>d[k]\<close> on a dictionary: KeyError when the key is absent.\<close>

definition dict_get :: "(string \<times> 'v) list \<Rightarrow> string \<Rightarrow> py_error + 'v" where
  "dict_get d k = (case map_of d k of None \<Rightarrow> Inl KeyError | Some v \<Rightarrow> Inr v)"

text \<open>\<open>xs[r % len(xs)]\<close>: the modulo raises ZeroDivisionError on an empty list.\<close>

definition pick :: "'a list \<Rightarrow> nat \<Rightarrow> py_error + 'a" where
  "pick xs r = (if xs = [] then Inl ZeroDivisionError else Inr (xs ! (r mod length xs)))"

section \<open>Main.py: keyed derivation and the field synthesizers\<close>

text \<open>\<open>_hashint(salt, key)\<close> and \<open>_rng(salt, key)\<close>.\<close>

definition hashint :: "'g pylib \<Rightarrow> string \<Rightarrow> string \<Rightarrow> nat" where
  "hashint lib salt key = sha256_int lib (salt @ ''|'' @ key)"

definition rng :: "'g pylib \<Rightarrow> string \<Rightarrow> string \<Rightarrow> 'g" where
  "rng lib salt key = rng_seed lib (sha256_int lib (salt @ ''|'' @ key) mod 2 ^ 32)"

text \<open>\<open>r.randint(a, b)\<close> is \<open>a + r._randbelow(b - a + 1)\<close>, \<open>r.uniform(a, b)\<close> is
  \<open>a + (b - a) * r.random()\<close>, and \<open>r.choice(seq)\<close> is \<open>seq[r._randbelow(len(seq))]\<close>.\<close>

definition randint :: "'g pylib \<Rightarrow> 'g \<Rightarrow> int \<Rightarrow> int \<Rightarrow> int \<times> 'g" where
  "randint lib g a b = (let (k, g') = rng_randbelow lib g (nat (b - a + 1)) in (a + int k, g'))"

definition uniform :: "'g pylib \<Rightarrow> 'g \<Rightarrow> rat \<Rightarrow> rat \<Rightarrow> rat \<times> 'g" where
  "uniform lib g a b = (let (u, g') = rng_random lib g in (a + (b - a) * u, g'))"

definition choice :: "'g pylib \<Rightarrow> 'g \<Rightarrow> 'a list \<Rightarrow> py_error + 'a" where
  "choice lib g xs =
     (let k = fst (rng_randbelow lib g (length xs))
      in if k < length xs then Inr (xs ! k) else Inl IndexError)"

text \<open>\<open>s.lower()\<close> on Latin-1, \<open>s.strip()\<close>, and \<open>p in s\<close>.\<close>

definition lower_char :: "char \<Rightarrow> char" where
  "lower_char c =
     (let n = (of_char c :: nat)
      in if (65 \<le> n \<and> n \<le> 90) \<or> (192 \<le> n \<and> n \<le> 222 \<and> n \<noteq> 215) then char_of (n + 32)
         else c)"

definition lower :: "string \<Rightarrow> string" where
  "lower s = map lower_char s"

definition is_space :: "char \<Rightarrow> bool" where
  "is_space c =
     (let n = (of_char c :: nat)
      in (9 \<le> n \<and> n \<le> 13) \<or> (28 \<le> n \<and> n \<le> 32) \<or> n = 133 \<or> n = 160)"

definition strip :: "string \<Rightarrow> string" where
  "strip s = rev (dropWhile is_space (rev (dropWhile is_space s)))"

primrec contains :: "string \<Rightarrow> string \<Rightarrow> bool" where
  "contains [] p = (p = [])"
| "contains (c # cs) p = (take (length p) (c # cs) = p \<or> contains cs p)"

text \<open>\<open>truthy v\<close> is Python's \<open>bool(v)\<close>; NaN is true.\<close>

definition truthy :: "pyval \<Rightarrow> bool" where
  "truthy v =
     (case v of PNone \<Rightarrow> False | PStr s \<Rightarrow> s \<noteq> [] | PInt i \<Rightarrow> i \<noteq> 0
      | PFloat (Fin r) \<Rightarrow> r \<noteq> 0 | PFloat NaN \<Rightarrow> True)"

text \<open>\<open>_det_name(salt, key, gender)\<close>.  \<open>gender\<close> is the cell of the gender column, or
  \<open>None\<close>; a true value that is not a string has no \<open>lower\<close> method.\<close>

definition gender_in :: "pyval \<Rightarrow> string list \<Rightarrow> py_error + bool" where
  "gender_in gender opts =
     (if \<not> truthy gender then Inr False
      else (case gender of PStr s \<Rightarrow> Inr (lower s \<in> set opts) | _ \<Rightarrow> Inl AttributeError))"

definition det_name :: "'g pylib \<Rightarrow> gen_config \<Rightarrow> string \<Rightarrow> string \<Rightarrow> pyval
    \<Rightarrow> py_error + string" where
  "det_name lib cfg salt key gender =
     (let r = hashint lib salt (''name|'' @ key)
      in bind_err (gender_in gender [''male'', ''m'']) (\<lambda>is_m.
           bind_err (if is_m then dict_get (names cfg) ''male''
                     else bind_err (gender_in gender [''female'', ''f'']) (\<lambda>is_f.
                            if is_f then dict_get (names cfg) ''female''
                            else bind_err (dict_get (names cfg) ''male'') (\<lambda>m.
                                   bind_err (dict_get (names cfg) ''female'') (\<lambda>f.
                                     Inr (m @ f)))))
             (\<lambda>name_list. pick name_list r)))"

definition det_city :: "'g pylib \<Rightarrow> gen_config \<Rightarrow> string \<Rightarrow> string \<Rightarrow> py_error + string" where
  "det_city lib cfg salt key = pick (cities cfg) (hashint lib salt (''city|'' @ key))"

definition det_isp :: "'g pylib \<Rightarrow> gen_config \<Rightarrow> string \<Rightarrow> string \<Rightarrow> py_error + string" where
  "det_isp lib cfg salt key = pick (isps cfg) (hashint lib salt (''isp|'' @ key))"

definition det_ip :: "'g pylib \<Rightarrow> string \<Rightarrow> string \<Rightarrow> string" where
  "det_ip lib salt key =
     (let g0 = rng lib salt (''ip|'' @ key);
          (a, g1) = randint lib g0 1 223;
          (b, g2) = randint lib g1 0 255;
          (c, g3) = randint lib g2 0 255;
          (d, g4) = randint lib g3 1 254
      in str_int a @ ''.'' @ str_int b @ ''.'' @ str_int c @ ''.'' @ str_int d)"

definition det_date_young :: "'g pylib \<Rightarrow> string \<Rightarrow> string \<Rightarrow> int \<Rightarrow> int \<Rightarrow> string" where
  "det_date_young lib salt key min_age max_age =
     (let g0 = rng lib salt (''dob|'' @ key);
          (age, g1) = randint lib g0 min_age max_age;
          year = today_year lib - age;
          (month, g2) = randint lib g1 1 12;
          (day, g3) = randint lib g2 1 28
      in fmt_int 4 year @ ''-'' @ fmt_int 2 month @ ''-'' @ fmt_int 2 day)"

definition det_date_recent :: "'g pylib \<Rightarrow> string \<Rightarrow> string \<Rightarrow> int \<Rightarrow> string" where
  "det_date_recent lib salt key years =
     (let g0 = rng lib salt (''recent|'' @ key);
          (back, g1) = randint lib g0 0 years;
          year = today_year lib - back;
          (month, g2) = randint lib g1 1 12;
          (day, g3) = randint lib g2 1 28
      in fmt_int 4 year @ ''-'' @ fmt_int 2 month @ ''-'' @ fmt_int 2 day)"

definition det_time :: "'g pylib \<Rightarrow> string \<Rightarrow> string \<Rightarrow> string" where
  "det_time lib salt key =
     (let g0 = rng lib salt (''time|'' @ key);
          (h, g1) = randint lib g0 0 23;
          (m, g2) = randint lib g1 0 59;
          (sec, g3) = randint lib g2 0 59
      in fmt_int 2 h @ '':'' @ fmt_int 2 m @ '':'' @ fmt_int 2 sec)"

text \<open>\<open>_luhn_checkdigit(num15)\<close>.  The loop \<open>for i in range(len(digits)-1, -1, -2)\<close>
  visits the last digit and every second one before it; \<open>luhn_double\<close> does so on the
  reversed list.\<close>

definition luhn_step :: "nat \<Rightarrow> nat" where
  "luhn_step d = (let doubled = d * 2 in if doubled > 9 then doubled - 9 else doubled)"

fun luhn_double :: "nat list \<Rightarrow> nat list" where
  "luhn_double [] = []"
| "luhn_double [x] = [luhn_step x]"
| "luhn_double (x # y # rest) = luhn_step x # y # luhn_double rest"

definition luhn_checkdigit :: "string \<Rightarrow> py_error + string" where
  "luhn_checkdigit num15 =
     bind_err (map_err int_of_char num15) (\<lambda>digits.
       let s = sum_list (luhn_double (rev digits))
       in Inr (str_nat ((10 - s mod 10) mod 10)))"

text \<open>\<open>_det_card(salt, key, brand)\<close>.\<close>

definition det_card :: "'g pylib \<Rightarrow> gen_config \<Rightarrow> string \<Rightarrow> string \<Rightarrow> string
    \<Rightarrow> py_error + string" where
  "det_card lib cfg salt key brand =
     (let brand' = (if brand \<notin> fst ` set (card_brands cfg) then ''visa'' else brand)
      in bind_err (dict_get (card_brands cfg) brand') (\<lambda>prefix.
           let base = zfill 15 (prefix @ slice_to (str_nat (hashint lib salt (''card|'' @ key)))
                                           (15 - int (length prefix)))
           in bind_err (luhn_checkdigit base) (\<lambda>d. Inr (base @ d))))"

text \<open>\<open>_det_digits(salt, key, n)\<close>.\<close>

definition det_digits :: "'g pylib \<Rightarrow> string \<Rightarrow> string \<Rightarrow> nat \<Rightarrow> string" where
  "det_digits lib salt key n =
     zfill n (slice_from (str_nat (hashint lib salt (''digits|'' @ key))) (- int n))"

text \<open>\<open>float(val)\<close>, Python's \<open>max(a, b)\<close> (which keeps \<open>a\<close> unless \<open>b > a\<close>, so a NaN
  second argument loses), and \<open>_perturb(val, salt, key, low, high, floor)\<close>.\<close>

definition py_float :: "'g pylib \<Rightarrow> pyval \<Rightarrow> py_error + pyfloat" where
  "py_float lib v =
     (case v of
        PNone \<Rightarrow> Inl TypeError
      | PStr s \<Rightarrow> (case float_of_str lib s of None \<Rightarrow> Inl ValueError | Some x \<Rightarrow> Inr x)
      | PInt i \<Rightarrow> Inr (Fin (of_int i))
      | PFloat x \<Rightarrow> Inr x)"

definition fl_times :: "pyfloat \<Rightarrow> rat \<Rightarrow> pyfloat" where
  "fl_times x k = (case x of Fin r \<Rightarrow> Fin (r * k) | NaN \<Rightarrow> NaN)"

definition py_max :: "rat \<Rightarrow> pyfloat \<Rightarrow> rat" where
  "py_max a b = (case b of Fin r \<Rightarrow> if r > a then r else a | NaN \<Rightarrow> a)"

definition perturb :: "'g pylib \<Rightarrow> pyval \<Rightarrow> string \<Rightarrow> string \<Rightarrow> rat \<Rightarrow> rat \<Rightarrow> rat \<Rightarrow> pyval" where
  "perturb lib val salt key low high flr =
     (case py_float lib val of
        Inl e \<Rightarrow> val
      | Inr x \<Rightarrow>
          let r = rng lib salt (''noise|'' @ key);
              factor = fst (uniform lib r low high)
          in PFloat (Fin (round2 (py_max flr (fl_times x factor)))))"



section \<open>Tables\<close>

text \<open>
  A pandas row is an ordered mapping from column labels to cells, and a DataFrame is
  its list of column labels and its rows, each with its index label (the \<open>i\<close> of
  \<open>df.iterrows()\<close>).  Cells are taken as the loop sees them: the conversions pandas
  applies when it builds a column or a row are outside the model.  In a well-formed
  table every row has exactly the table's columns.
\<close>

type_synonym row = "(string \<times> pyval) list"

record dataframe =
  df_columns :: "string list"
  df_rows :: "(pyval \<times> row) list"

definition wf_table :: "dataframe \<Rightarrow> bool" where
  "wf_table df = (distinct (df_columns df)
     \<and> list_all (\<lambda>(i, r). map fst r = df_columns df) (df_rows df))"

definition row_has :: "row \<Rightarrow> string \<Rightarrow> bool" where
  "row_has r c = (c \<in> fst ` set r)"

text \<open>\<open>new[c] = x\<close>: an existing label keeps its place, a new one is appended.\<close>

definition row_set :: "row \<Rightarrow> string \<Rightarrow> pyval \<Rightarrow> row" where
  "row_set r c x =
     (if row_has r c then map (\<lambda>(k, v). if k = c then (k, x) else (k, v)) r else r @ [(c, x)])"

text \<open>\<open>row.get(c, d)\<close> and \<open>row[c]\<close>.\<close>

definition row_get :: "row \<Rightarrow> string \<Rightarrow> pyval \<Rightarrow> pyval" where
  "row_get r c d = (case map_of r c of None \<Rightarrow> d | Some v \<Rightarrow> v)"

definition row_item :: "row \<Rightarrow> string \<Rightarrow> py_error + pyval" where
  "row_item r c = (case map_of r c of None \<Rightarrow> Inl KeyError | Some v \<Rightarrow> Inr v)"

text \<open>\<open>str(v)\<close> and \<open>pd.notna(v)\<close>.\<close>

definition py_str :: "'g pylib \<Rightarrow> pyval \<Rightarrow> string" where
  "py_str lib v =
     (case v of PNone \<Rightarrow> ''None'' | PStr s \<Rightarrow> s | PInt i \<Rightarrow> str_int i
      | PFloat (Fin r) \<Rightarrow> str_of_float lib r | PFloat NaN \<Rightarrow> ''nan'')"

definition notna :: "pyval \<Rightarrow> bool" where
  "notna v = (v \<noteq> PNone \<and> v \<noteq> PFloat NaN)"

section \<open>Main.py: classification, identity keys and row assembly\<close>

text \<open>\<open>_first_nonempty(row, candidates)\<close>.\<close>

fun first_nonempty :: "'g pylib \<Rightarrow> row \<Rightarrow> string list \<Rightarrow> string" where
  "first_nonempty lib r [] = ''''"
| "first_nonempty lib r (c # cs) =
     (case map_of r c of
        Some v \<Rightarrow> if notna v \<and> strip (py_str lib v) \<noteq> '''' then py_str lib v
                  else first_nonempty lib r cs
      | None \<Rightarrow> first_nonempty lib r cs)"

text \<open>\<open>_detect_column_types(df)\<close>: the first keyword group that matches the lower-cased
  column name decides; \<open>columns_of\<close> is one entry of the dictionary it returns.\<close>

datatype category = NameCol | AddressCol | IdCol | DateCol | AmountCol | PhoneCol | EmailCol
  | IpCol | GenderCol

definition any_in :: "string list \<Rightarrow> string \<Rightarrow> bool" where
  "any_in keys s = list_ex (contains s) keys"

definition classify :: "string \<Rightarrow> category option" where
  "classify col =
     (let l = lower col
      in if any_in [''name'', ''firstname'', ''lastname''] l then Some NameCol
         else if any_in [''address'', ''city'', ''location''] l then Some AddressCol
         else if any_in [''id'', ''ssn'', ''aadhaar'', ''aadhar'', ''pan''] l then Some IdCol
         else if any_in [''date'', ''time'', ''dob'', ''birth''] l then Some DateCol
         else if any_in [''amount'', ''balance'', ''income'', ''price'', ''value''] l
           then Some AmountCol
         else if any_in [''phone'', ''mobile'', ''contact''] l then Some PhoneCol
         else if contains l ''email'' then Some EmailCol
         else if contains l ''ip'' then Some IpCol
         else if contains l ''gender'' then Some GenderCol
         else None)"

definition columns_of :: "category \<Rightarrow> string list \<Rightarrow> string list" where
  "columns_of cat cols = filter (\<lambda>c. classify c = Some cat) cols"

fun fold_err :: "('a \<Rightarrow> 'b \<Rightarrow> py_error + 'b) \<Rightarrow> 'a list \<Rightarrow> 'b \<Rightarrow> py_error + 'b" where
  "fold_err f [] acc = Inr acc"
| "fold_err f (x # xs) acc = (case f x acc of Inl e \<Rightarrow> Inl e | Inr acc' \<Rightarrow> fold_err f xs acc')"

text \<open>The identity keys of a row: \<open>sender_key\<close>, \<open>receiver_key\<close> and \<open>txn_key\<close>.\<close>

definition sender_key :: "'g pylib \<Rightarrow> pyval \<Rightarrow> row \<Rightarrow> string" where
  "sender_key lib i r =
     (let k = first_nonempty lib r [''SenderAadhar'', ''SenderSSN'', ''SenderPhone'', ''SenderName'']
      in if k \<noteq> '''' then k else ''snd'' @ py_str lib i)"

definition receiver_key :: "'g pylib \<Rightarrow> pyval \<Rightarrow> row \<Rightarrow> string" where
  "receiver_key lib i r =
     (let k = first_nonempty lib r
                [''ReceiverSSN'', ''ReceiverCard'', ''ReceiverPhone'', ''ReceiverName'']
      in if k \<noteq> '''' then k else ''rcv'' @ py_str lib i)"

definition txn_key :: "'g pylib \<Rightarrow> pyval \<Rightarrow> row \<Rightarrow> string" where
  "txn_key lib i r = py_str lib (row_get r ''TransactionID'' i)"

definition base_key :: "string \<Rightarrow> string \<Rightarrow> string \<Rightarrow> string" where
  "base_key col snd_key rcv_key = (if \<not> contains (lower col) ''receiver'' then snd_key else rcv_key)"

text \<open>The fraud label of a row, from the row as synthesized so far (\<open>new\<close>).\<close>

definition fraud_amount :: "'g pylib \<Rightarrow> row \<Rightarrow> py_error + pyfloat" where
  "fraud_amount lib new =
     (let v = row_get new ''TransactionAmount'' (PInt 0)
      in py_float lib (if truthy v then v else PInt 0))"

definition gt_float :: "pyfloat \<Rightarrow> rat \<Rightarrow> bool" where
  "gt_float x t = (case x of Fin r \<Rightarrow> r > t | NaN \<Rightarrow> False)"

definition creation_year :: "row \<Rightarrow> py_error + int" where
  "creation_year new =
     bind_err (row_item new ''ReceiverAccountCreationDate'') (\<lambda>v.
       case v of PStr s \<Rightarrow> int_of_str (slice_to s 4) | _ \<Rightarrow> Inl TypeError)"

definition fraud_probability :: "'g pylib \<Rightarrow> gen_config \<Rightarrow> row \<Rightarrow> py_error + rat" where
  "fraud_probability lib cfg new =
     bind_err (fraud_amount lib new) (\<lambda>amt.
     let fc = fraud_indicators cfg in
     bind_err (dict_get fc ''base_fraud_probability'') (\<lambda>prob0.
     bind_err (dict_get fc ''high_amount_threshold'') (\<lambda>threshold.
     bind_err (if gt_float amt threshold
               then bind_err (dict_get fc ''high_amount_risk_increase'') (\<lambda>inc. Inr (prob0 + inc))
               else Inr prob0) (\<lambda>prob1.
     bind_err (if row_has new ''ReceiverAccountCreationDate''
               then bind_err (creation_year new) (\<lambda>y.
                      if y \<ge> today_year lib - 1
                      then bind_err (dict_get fc ''new_account_risk_increase'')
                             (\<lambda>inc. Inr (prob1 + inc))
                      else Inr prob1)
               else Inr prob1) (\<lambda>prob2.
     bind_err (dict_get fc ''max_fraud_probability'') (\<lambda>mx.
       Inr (min prob2 mx)))))))"

definition fraud_label :: "'g pylib \<Rightarrow> gen_config \<Rightarrow> string \<Rightarrow> string \<Rightarrow> row \<Rightarrow> py_error + pyval"
  where
  "fraud_label lib cfg salt tkey new =
     (let r = rng lib salt (''fraud|'' @ tkey)
      in bind_err (fraud_probability lib cfg new) (\<lambda>p.
           Inr (if fst (rng_random lib r) < p then PInt 1 else PInt 0)))"

text \<open>The body of the loop of \<open>generate_synthetic_data\<close>, one step per block of the
  source, each taking the row built so far (\<open>new\<close>) to the next one.  \<open>cols\<close> is
  \<open>df.columns\<close>, \<open>r\<close> the input row and \<open>i\<close> its index label.\<close>

definition gender_of :: "string list \<Rightarrow> row \<Rightarrow> string \<Rightarrow> pyval" where
  "gender_of cols r col =
     (if contains (lower col) ''sender'' \<and> ''SenderGender'' \<in> set cols
        then row_get r ''SenderGender'' PNone
      else if contains (lower col) ''receiver'' \<and> ''ReceiverGender'' \<in> set cols
        then row_get r ''ReceiverGender'' PNone
      else PNone)"

definition step_names :: "'g pylib \<Rightarrow> gen_config \<Rightarrow> string \<Rightarrow> string list \<Rightarrow> row \<Rightarrow> string
    \<Rightarrow> string \<Rightarrow> row \<Rightarrow> py_error + row" where
  "step_names lib cfg salt cols r sk rk new =
     fold_err (\<lambda>col acc.
         bind_err (det_name lib cfg salt (base_key col sk rk @ ''|'' @ col) (gender_of cols r col))
           (\<lambda>n. Inr (row_set acc col (PStr n))))
       (columns_of NameCol cols) new"

definition step_addresses :: "'g pylib \<Rightarrow> gen_config \<Rightarrow> string \<Rightarrow> string list \<Rightarrow> string
    \<Rightarrow> string \<Rightarrow> row \<Rightarrow> py_error + row" where
  "step_addresses lib cfg salt cols sk rk new =
     fold_err (\<lambda>col acc.
         bind_err (det_city lib cfg salt (base_key col sk rk @ ''|'' @ col))
           (\<lambda>n. Inr (row_set acc col (PStr n))))
       (columns_of AddressCol cols) new"

definition set_if :: "string list \<Rightarrow> string \<Rightarrow> pyval \<Rightarrow> row \<Rightarrow> row" where
  "set_if cols c x new = (if c \<in> set cols then row_set new c x else new)"

definition step_ids :: "'g pylib \<Rightarrow> string \<Rightarrow> string list \<Rightarrow> string \<Rightarrow> string \<Rightarrow> row \<Rightarrow> row" where
  "step_ids lib salt cols sk rk new =
     (let n1 = set_if cols ''SenderAadhar'' (PStr (det_digits lib salt (sk @ ''|aadhaar'') 12)) new;
          n2 = set_if cols ''SenderSSN'' (PStr (det_digits lib salt (sk @ ''|ssn'') 9)) n1
      in set_if cols ''ReceiverSSN'' (PStr (det_digits lib salt (rk @ ''|ssn'') 9)) n2)"

definition step_cards :: "'g pylib \<Rightarrow> gen_config \<Rightarrow> string \<Rightarrow> string list \<Rightarrow> string \<Rightarrow> string
    \<Rightarrow> row \<Rightarrow> py_error + row" where
  "step_cards lib cfg salt cols sk rk new =
     bind_err (if ''SenderCard'' \<in> set cols
               then bind_err (det_card lib cfg salt sk ''visa'')
                      (\<lambda>c. Inr (row_set new ''SenderCard'' (PStr c)))
               else Inr new) (\<lambda>n1.
       if ''ReceiverCard'' \<in> set cols
       then bind_err (det_card lib cfg salt rk ''mc'')
              (\<lambda>c. Inr (row_set n1 ''ReceiverCard'' (PStr c)))
       else Inr n1)"

definition step_ips :: "'g pylib \<Rightarrow> string \<Rightarrow> string list \<Rightarrow> string \<Rightarrow> string \<Rightarrow> row \<Rightarrow> row" where
  "step_ips lib salt cols sk rk new =
     foldl (\<lambda>acc col. row_set acc col (PStr (det_ip lib salt (base_key col sk rk @ ''|'' @ col))))
       new (columns_of IpCol cols)"

definition step_isps :: "'g pylib \<Rightarrow> gen_config \<Rightarrow> string \<Rightarrow> string list \<Rightarrow> string \<Rightarrow> string
    \<Rightarrow> row \<Rightarrow> py_error + row" where
  "step_isps lib cfg salt cols sk rk new =
     fold_err (\<lambda>col acc.
         bind_err (det_isp lib cfg salt (base_key col sk rk @ ''|'' @ col))
           (\<lambda>n. Inr (row_set acc col (PStr n))))
       (filter (\<lambda>c. contains (lower c) ''isp'') cols) new"

definition step_genders :: "'g pylib \<Rightarrow> string \<Rightarrow> string list \<Rightarrow> string \<Rightarrow> string \<Rightarrow> row
    \<Rightarrow> py_error + row" where
  "step_genders lib salt cols sk rk new =
     fold_err (\<lambda>col acc.
         bind_err (choice lib (rng lib salt (''gender|'' @ base_key col sk rk))
                     [''Male'', ''Female'', ''Other''])
           (\<lambda>g. Inr (row_set acc col (PStr g))))
       (columns_of GenderCol cols) new"

definition step_dates :: "'g pylib \<Rightarrow> string \<Rightarrow> string list \<Rightarrow> string \<Rightarrow> string \<Rightarrow> string
    \<Rightarrow> row \<Rightarrow> row" where
  "step_dates lib salt cols sk rk tk new =
     (let n1 = set_if cols ''SenderDOB'' (PStr (det_date_young lib salt sk 18 70)) new;
          n2 = set_if cols ''ReceiverDOB'' (PStr (det_date_young lib salt rk 18 70)) n1;
          n3 = set_if cols ''TransactionDate'' (PStr (det_date_recent lib salt tk 9)) n2;
          n4 = set_if cols ''TransactionTime'' (PStr (det_time lib salt tk)) n3;
          n5 = set_if cols ''ReceiverAccountCreationDate''
                 (PStr (det_date_recent lib salt rk 10)) n4
      in set_if cols ''LastTransactionDate'' (PStr (det_date_recent lib salt sk 2)) n5)"

definition step_amounts :: "'g pylib \<Rightarrow> gen_config \<Rightarrow> string \<Rightarrow> string list \<Rightarrow> row \<Rightarrow> string
    \<Rightarrow> row \<Rightarrow> py_error + row" where
  "step_amounts lib cfg salt cols r tk new =
     fold_err (\<lambda>(col, low, high, flr) acc.
         if col \<in> set cols
         then bind_err (row_item r col) (\<lambda>v.
                Inr (row_set acc col (perturb lib v salt (tk @ ''|'' @ col) low high flr)))
         else Inr acc)
       (amount_ranges cfg) new"

definition step_fraud :: "'g pylib \<Rightarrow> gen_config \<Rightarrow> string \<Rightarrow> string list \<Rightarrow> string \<Rightarrow> row
    \<Rightarrow> py_error + row" where
  "step_fraud lib cfg salt cols tk new =
     (if ''Fraud'' \<in> set cols
      then bind_err (fraud_label lib cfg salt tk new) (\<lambda>l. Inr (row_set new ''Fraud'' l))
      else Inr new)"

definition synth_row :: "'g pylib \<Rightarrow> gen_config \<Rightarrow> string \<Rightarrow> string list \<Rightarrow> pyval \<times> row
    \<Rightarrow> py_error + pyval \<times> row" where
  "synth_row lib cfg salt cols ir =
     (let i = fst ir; r = snd ir;
          sk = sender_key lib i r; rk = receiver_key lib i r; tk = txn_key lib i r
      in bind_err (step_names lib cfg salt cols r sk rk r) (\<lambda>n1.
         bind_err (step_addresses lib cfg salt cols sk rk n1) (\<lambda>n2.
         bind_err (step_cards lib cfg salt cols sk rk (step_ids lib salt cols sk rk n2)) (\<lambda>n3.
         bind_err (step_isps lib cfg salt cols sk rk (step_ips lib salt cols sk rk n3)) (\<lambda>n4.
         bind_err (step_genders lib salt cols sk rk n4) (\<lambda>n5.
         bind_err (step_amounts lib cfg salt cols r tk (step_dates lib salt cols sk rk tk n5))
           (\<lambda>n6.
         bind_err (step_fraud lib cfg salt cols tk n6) (\<lambda>n7. Inr (i, n7)))))))))"

text \<open>\<open>salt if salt else hex(random.getrandbits(128))\<close>: an absent and an empty salt are
  both replaced.\<close>

definition salt_or_new :: "'g pylib \<Rightarrow> string option \<Rightarrow> string" where
  "salt_or_new lib salt =
     (case salt of Some s \<Rightarrow> if s \<noteq> '''' then s else py_hex (getrandbits128 lib)
      | None \<Rightarrow> py_hex (getrandbits128 lib))"

text \<open>\<open>generate_synthetic_data(df, salt)\<close>.  The rows are synthesized in order and the
  first exception ends the call.  \<open>pd.DataFrame(out_rows)\<close> takes its columns from the
  rows, so a table without rows comes back without columns.\<close>

definition frame_of_rows :: "(pyval \<times> row) list \<Rightarrow> dataframe" where
  "frame_of_rows out_rows =
     \<lparr> df_columns = (case out_rows of [] \<Rightarrow> [] | ir # rest \<Rightarrow> map fst (snd ir)),
       df_rows = out_rows \<rparr>"

definition generate_synthetic_data :: "'g pylib \<Rightarrow> gen_config \<Rightarrow> dataframe \<Rightarrow> string option
    \<Rightarrow> py_error + dataframe" where
  "generate_synthetic_data lib cfg df salt =
     (let salt' = salt_or_new lib salt
      in bind_err (map_err (synth_row lib cfg salt' (df_columns df)) (df_rows df))
           (\<lambda>out_rows. Inr (frame_of_rows out_rows)))"

section \<open>tokenizer.py: tokens and the column rules\<close>

text \<open>\<open>_sha(val)\<close> is the hex digest, 64 lower-case hex digits; \<open>int(_sha(val), 16)\<close>
  is \<open>sha256_int\<close> again.\<close>

definition sha_hex :: "'g pylib \<Rightarrow> string \<Rightarrow> string" where
  "sha_hex lib val = zfill 64 (hex_digits (sha256_int lib val))"

definition token :: "'g pylib \<Rightarrow> string \<Rightarrow> string \<Rightarrow> string \<Rightarrow> string" where
  "token lib prefix raw salt = prefix @ ''-'' @ slice_to (sha_hex lib (salt @ ''|'' @ raw)) 12"

definition city_from_hash :: "'g pylib \<Rightarrow> tok_config \<Rightarrow> string \<Rightarrow> string \<Rightarrow> py_error + string"
  where
  "city_from_hash lib cfg text salt = pick (city_list cfg) (sha256_int lib (salt @ ''|'' @ text))"

definition name_from_hash :: "'g pylib \<Rightarrow> tok_config \<Rightarrow> string \<Rightarrow> string \<Rightarrow> py_error + string"
  where
  "name_from_hash lib cfg text salt = pick (name_list cfg) (sha256_int lib (salt @ ''|'' @ text))"

definition email_from_hash :: "'g pylib \<Rightarrow> tok_config \<Rightarrow> string \<Rightarrow> string \<Rightarrow> py_error + string"
  where
  "email_from_hash lib cfg text salt =
     bind_err (name_from_hash lib cfg text (salt @ ''|email'')) (\<lambda>n.
       Inr (map (\<lambda>c. if c = CHR '' '' then CHR ''.'' else c) (lower n) @ ''@example.com''))"

text \<open>The \<open>transformation_map\<close> of \<open>tokenize_dataset\<close>: eight rules in the source's
  order, each a condition on the column name and a transformation of one cell.\<close>

datatype tok_rule = RName | RAadhaar | RSsn | RReceiverCard | RCard | RPhone | REmail | RAddress

definition transformation_map :: "tok_rule list" where
  "transformation_map = [RName, RAadhaar, RSsn, RReceiverCard, RCard, RPhone, REmail, RAddress]"

definition rule_condition :: "tok_rule \<Rightarrow> string \<Rightarrow> bool" where
  "rule_condition rule c =
     (let l = lower c
      in case rule of
           RName \<Rightarrow> contains l ''name'' \<and> \<not> contains l ''transaction'' \<and> \<not> contains l ''location''
         | RAadhaar \<Rightarrow> contains l ''aadhaar'' \<or> contains l ''aadhar''
         | RSsn \<Rightarrow> l = ''ssn'' \<or> contains l ''ssn''
         | RReceiverCard \<Rightarrow> contains l ''card'' \<and> contains l ''receiver''
         | RCard \<Rightarrow> contains l ''card''
         | RPhone \<Rightarrow> contains l ''phone'' \<or> contains l ''mobile''
         | REmail \<Rightarrow> contains l ''email''
         | RAddress \<Rightarrow> contains l ''address'')"

definition rule_transform :: "'g pylib \<Rightarrow> tok_config \<Rightarrow> string \<Rightarrow> tok_rule \<Rightarrow> string \<Rightarrow> string
    \<Rightarrow> py_error + string" where
  "rule_transform lib cfg salt rule v c =
     (case rule of
        RName \<Rightarrow> name_from_hash lib cfg v (salt @ ''|'' @ c)
      | RAadhaar \<Rightarrow> bind_err (dict_get (token_prefixes cfg) ''aadhaar'')
                     (\<lambda>p. Inr (token lib p v salt))
      | RSsn \<Rightarrow> bind_err (dict_get (token_prefixes cfg) ''ssn'') (\<lambda>p. Inr (token lib p v salt))
      | RReceiverCard \<Rightarrow> bind_err (dict_get (token_prefixes cfg) ''receiver_card'')
                          (\<lambda>p. Inr (token lib p v salt))
      | RCard \<Rightarrow> bind_err (dict_get (token_prefixes cfg) ''card'') (\<lambda>p. Inr (token lib p v salt))
      | RPhone \<Rightarrow> Inr (mask_keep_last cfg v None)
      | REmail \<Rightarrow> email_from_hash lib cfg v (salt @ ''|'' @ c)
      | RAddress \<Rightarrow> city_from_hash lib cfg v (salt @ ''|'' @ c))"

text \<open>\<open>out[col] = out[col].astype(str).apply(lambda v: transform(v, col))\<close>: every cell
  of the column is turned into its string and transformed, top to bottom; the column is
  assigned only when no cell raised.\<close>

definition transform_cell :: "'g pylib \<Rightarrow> tok_config \<Rightarrow> string \<Rightarrow> tok_rule \<Rightarrow> string
    \<Rightarrow> pyval \<times> row \<Rightarrow> py_error + pyval \<times> row" where
  "transform_cell lib cfg salt rule col ir =
     bind_err (row_item (snd ir) col) (\<lambda>v.
       bind_err (rule_transform lib cfg salt rule (py_str lib v) col) (\<lambda>t.
         Inr (fst ir, row_set (snd ir) col (PStr t))))"

definition apply_rule :: "'g pylib \<Rightarrow> tok_config \<Rightarrow> string \<Rightarrow> tok_rule \<Rightarrow> string
    \<Rightarrow> (pyval \<times> row) list \<Rightarrow> py_error + (pyval \<times> row) list" where
  "apply_rule lib cfg salt rule col rws = map_err (transform_cell lib cfg salt rule col) rws"

text \<open>The inner loop over the rules for one column: the first rule whose condition holds
  and whose transformation succeeds ends it (\<open>break\<close>); a rule that raises is caught,
  the column is left as it was, and the loop goes on to the next rule.\<close>

fun tokenize_column :: "'g pylib \<Rightarrow> tok_config \<Rightarrow> string \<Rightarrow> tok_rule list \<Rightarrow> string
    \<Rightarrow> (pyval \<times> row) list \<Rightarrow> (pyval \<times> row) list" where
  "tokenize_column lib cfg salt [] col rws = rws"
| "tokenize_column lib cfg salt (rule # rules) col rws =
     (if rule_condition rule col
      then (case apply_rule lib cfg salt rule col rws of
              Inr rws' \<Rightarrow> rws'
            | Inl e \<Rightarrow> tokenize_column lib cfg salt rules col rws)
      else tokenize_column lib cfg salt rules col rws)"

text \<open>\<open>tokenize_dataset(df, salt)\<close>.\<close>

definition tokenize_dataset :: "'g pylib \<Rightarrow> tok_config \<Rightarrow> dataframe \<Rightarrow> string option \<Rightarrow> dataframe"
  where
  "tokenize_dataset lib cfg df salt =
     (let salt' = salt_or_new lib salt
      in \<lparr> df_columns = df_columns df,
           df_rows = foldl (\<lambda>rws col. tokenize_column lib cfg salt' transformation_map col rws)
                       (df_rows df) (df_columns df) \<rparr>)"

section \<open>A recorded run of the libraries, and the tables of the examples\<close>

text \<open>
  The examples below are evaluated against what CPython 3.11 returns for the inputs
  they use, recorded from the interpreter: the SHA-256 values of the strings hashed,
  and, for the generators seeded from them, the draws in the order the code makes
  them (\<open>random()\<close> as an exact fraction of \<open>2 ^ 53\<close>).  A generator state is its seed
  and the number of draws made so far.  Outside the recorded inputs the record answers 0.
  \<open>float(s)\<close> is recorded for integer literals and \<open>nan\<close>, \<open>str(x)\<close> for integral
  floats, and the year is the one of the recording.
\<close>

definition recorded_sha :: "(string \<times> nat) list" where
  "recorded_sha =
    [(''s1|card|k1'',
        83086222654950926040604564451766506107263365314650411541784592127344907777260),
     (''s1|name|123456789012|SenderName'',
        40965085652080836724164555910615509397627556561963975863712014696946840527860),
     (''s1|digits|123456789012|aadhaar'',
        20240426649544681902418173881485045767895161319483867138392834993839212142341),
     (''s1|recent|rcv0'',
        11912971100927993664085243356143488232322740785772173364273497078669719959691),
     (''s1|noise|0|TransactionAmount'',
        68460992714849153648288593714128307168523408566596755399324696985056085901516),
     (''s1|fraud|0'',
        57572000534041278041560347738587300073040957431937475740825796210786532981824),
     (''0x401dda6b8b0ebf0c1aea42920fee127d|digits|123456789012|aadhaar'',
        111878724458451409840214640770414339013897095428838438871621658773941732283196),
     (''0x9c1aa4f02d8b6e3357a1c4d2e8f0b611|digits|123456789012|aadhaar'',
        710803995129987662594518343808687163400156061252846651028535745780582232397),
     (''0x401dda6b8b0ebf0c1aea42920fee127d|123456789012'',
        112159439158233419634456897898216895601490849597985306134211682951287251611758),
     (''0x9c1aa4f02d8b6e3357a1c4d2e8f0b611|123456789012'',
        7952119401703571963018182017088659108831236429347048193912548801900316809731),
     (''s1|Ravi'',
        57159732736280256002983826953558301684381729726023682483388039084392419794506),
     (''0x401dda6b8b0ebf0c1aea42920fee127d|name|Ravi|SenderName'',
        41098280455977539574888869255527911467352457837419872054563777164595156332582),
     (''0x9c1aa4f02d8b6e3357a1c4d2e8f0b611|name|Ravi|SenderName'',
        20847819775370444618009586407242400390290069787194328132295244786085953280698)]"

definition recorded_random :: "((nat \<times> nat) \<times> rat) list" where
  "recorded_random =
    [((2192670924, 0), 1610263693219985 / 9007199254740992),
     ((2221276224, 0), 4222663893647155 / 9007199254740992)]"

definition recorded_randbelow :: "((nat \<times> nat \<times> nat) \<times> nat) list" where
  "recorded_randbelow =
    [((1480128651, 0, 11), 3), ((1480128651, 1, 12), 1), ((1480128651, 2, 28), 15)]"

definition cpython_lib :: "(nat \<times> nat) pylib" where
  "cpython_lib = \<lparr>
     sha256_int = (\<lambda>s. case map_of recorded_sha s of Some h \<Rightarrow> h | None \<Rightarrow> 0),
     rng_seed = (\<lambda>seed. (seed, 0)),
     rng_random = (\<lambda>g. (case map_of recorded_random g of Some u \<Rightarrow> u | None \<Rightarrow> 0,
                         (fst g, snd g + 1))),
     rng_randbelow = (\<lambda>g n. (case map_of recorded_randbelow (fst g, snd g, n) of
                                Some k \<Rightarrow> k | None \<Rightarrow> 0,
                              (fst g, snd g + 1))),
     today_year = 2026,
     getrandbits128 = 85225598424875354479447741394049700477,
     float_of_str = (\<lambda>s. if s = ''nan'' then Some NaN
                         else (case int_of_str s of Inr i \<Rightarrow> Some (Fin (of_int i))
                               | Inl e \<Rightarrow> None)),
     str_of_float = (\<lambda>r. str_int \<lfloor>r\<rfloor> @ ''.0'') \<rparr>"

text \<open>The same run with another value drawn by \<open>random.getrandbits(128)\<close>.\<close>

definition cpython_lib2 :: "(nat \<times> nat) pylib" where
  "cpython_lib2 = cpython_lib \<lparr> getrandbits128 := 207497912404798170527024813638792820241 \<rparr>"


definition default_tok_config :: tok_config where
  "default_tok_config = tok_setup_default_config no_overrides"


text \<open>The scenario row of the specification, with a \<open>Fraud\<close> column so that a label is
  synthesized, as the only row of a table.\<close>

definition scenario_columns :: "string list" where
  "scenario_columns = [''SenderName'', ''SenderAadhar'', ''TransactionAmount'',
     ''ReceiverAccountCreationDate'', ''Fraud'']"

definition scenario_row :: row where
  "scenario_row = [(''SenderName'', PStr ''Ravi''), (''SenderAadhar'', PStr ''123456789012''),
     (''TransactionAmount'', PInt 9000), (''ReceiverAccountCreationDate'', PStr ''2024-01-01''),
     (''Fraud'', PInt 0)]"

definition scenario_table :: dataframe where
  "scenario_table = \<lparr> df_columns = scenario_columns, df_rows = [(PInt 0, scenario_row)] \<rparr>"

text \<open>A table with one name, a table with a column no rule touches, a table whose second
  amount is not a number, and a table with a card-holder column.\<close>

definition name_table :: dataframe where
  "name_table = \<lparr> df_columns = [''SenderName''],
     df_rows = [(PInt 0, [(''SenderName'', PStr ''Ravi'')])] \<rparr>"

definition notes_table :: dataframe where
  "notes_table = \<lparr> df_columns = [''Notes''],
     df_rows = [(PInt 0, [(''Notes'', PStr ''hello'')])] \<rparr>"

definition amounts_table :: dataframe where
  "amounts_table = \<lparr> df_columns = [''TransactionAmount'', ''Fraud''],
     df_rows = [(PInt 0, [(''TransactionAmount'', PInt 9000), (''Fraud'', PInt 0)]),
                (PInt 1, [(''TransactionAmount'', PStr ''abc''), (''Fraud'', PInt 0)])] \<rparr>"

definition holder_table :: dataframe where
  "holder_table = \<lparr> df_columns = [''card_name''],
     df_rows = [(PInt 0, [(''card_name'', PStr ''Ravi'')])] \<rparr>"

text \<open>A tokenizer configuration with an empty name list, and a generator configuration
  with an empty card-brand map.\<close>

definition no_names_config :: tok_config where
  "no_names_config = tok_setup_default_config (no_overrides \<lparr> o_name_list := Some [] \<rparr>)"

definition no_brands_config :: gen_config where
  "no_brands_config = gen_setup_default_config (gen_no_overrides \<lparr> o_card_brands := Some [] \<rparr>)"

text \<open>The value of a list of hexadecimal digits, most significant first.\<close>

definition horner16 :: "nat list \<Rightarrow> nat" where
  "horner16 ds = foldl (\<lambda>a d. a * 16 + d) 0 ds"


section \<open>Masking: what is kept and what is hidden\<close>

lemma isdigit_star: "\<not> isdigit CHR ''*''"
  by (simp add: isdigit_def is_decimal_def)

lemma filter_isdigit_id: "list_all isdigit s \<Longrightarrow> filter isdigit s = s"
  by (induction s) auto

text \<open>For a keep count between 1 and the length of a digit string, the masked string has
  the input's length, ends in the input's last \<open>n\<close> characters, and is the mask character
  everywhere before.\<close>

lemma mask_keep_last_invariant:
  assumes digits: "list_all isdigit s" and pos: "1 \<le> n" and le: "n \<le> length s"
  shows "length (mask_keep_last cfg s (Some (int n))) = length s
       \<and> drop (length s - n) (mask_keep_last cfg s (Some (int n))) = drop (length s - n) s
       \<and> take (length s - n) (mask_keep_last cfg s (Some (int n)))
           = replicate (length s - n) CHR ''*''"
proof -
  have f: "filter isdigit s = s" using digits by (rule filter_isdigit_id)
  show ?thesis
  proof (cases "length s = n")
    case True
    then show ?thesis by (simp add: mask_keep_last_def f)
  next
    case False
    with le have lt: "n < length s" by simp
    have sl: "slice_from s (- int n) = drop (length s - n) s"
      using pos lt by (simp add: slice_from_def nat_diff_distrib' of_nat_diff)
    have st: "str_times CHR ''*'' (int (length s) - int n) = replicate (length s - n) CHR ''*''"
      using lt by (simp add: str_times_def nat_diff_distrib')
    have m: "mask_keep_last cfg s (Some (int n))
               = replicate (length s - n) CHR ''*'' @ drop (length s - n) s"
      using lt by (simp add: mask_keep_last_def f sl st)
    show ?thesis using lt by (simp add: m)
  qed
qed

lemma suffix_digits: "list_all isdigit (slice_from (filter isdigit num) k)"
  by (auto simp: slice_from_def list_all_iff dest: in_set_dropD)

lemma mask_keep_last_shape:
  "mask_keep_last cfg num la = filter isdigit num
   \<or> (\<exists>k j. mask_keep_last cfg num la
               = str_times CHR ''*'' k @ slice_from (filter isdigit num) j)"
  unfolding mask_keep_last_def Let_def by (rule if_split [THEN iffD2]) blast

lemma mask_keep_last_chars:
  "list_all (\<lambda>c. isdigit c \<or> c = CHR ''*'') (mask_keep_last cfg num any_last)"
proof -
  have d: "list_all (\<lambda>c. isdigit c \<or> c = CHR ''*'') (filter isdigit num)"
    by (simp add: list_all_iff)
  have s: "list_all (\<lambda>c. isdigit c \<or> c = CHR ''*'') (slice_from (filter isdigit num) k)"
    for k
    using suffix_digits [of num k] unfolding list_all_iff by blast
  have r: "list_all (\<lambda>c. isdigit c \<or> c = CHR ''*'') (str_times CHR ''*'' k)" for k
    by (simp add: str_times_def list_all_iff)
  from mask_keep_last_shape [of cfg num any_last] show ?thesis
  proof
    assume "mask_keep_last cfg num any_last = filter isdigit num"
    then show ?thesis using d by simp
  next
    assume "\<exists>k j. mask_keep_last cfg num any_last
               = str_times CHR ''*'' k @ slice_from (filter isdigit num) j"
    then obtain k j where "mask_keep_last cfg num any_last
               = str_times CHR ''*'' k @ slice_from (filter isdigit num) j" by blast
    then show ?thesis using s [of j] r [of k] by simp
  qed
qed

text \<open>
  C5, at a keep count of zero.  Asked to keep the last 0 digits of \<open>1234\<close>, the code
  takes \<open>s[-0:]\<close>, which is the whole string: the result is four mask characters
  followed by all four digits, of length 8 and with no digit hidden.
\<close>

theorem mask_keep_last_zero:
  "mask_keep_last cfg ''1234'' (Some 0) = ''****1234''
   \<and> length (mask_keep_last cfg ''1234'' (Some 0)) \<noteq> length ''1234''"
  by code_simp

text \<open>
  C10.  When the input has at most \<open>n\<close> digit characters (\<open>n\<close> the \<open>last\<close> argument, or
  the configured \<open>mask_digits\<close> when the argument is absent), the result is exactly the
  input's digit characters: nothing is masked, every character of the result is a digit
  and none is the mask character.  For every keep count, each character of the result
  is a digit or the mask character, so no other character of the input survives.
\<close>

theorem mask_keep_last_short_clear:
  "(int (length (filter isdigit num))
      \<le> (case last_arg of None \<Rightarrow> mask_digits cfg | Some l \<Rightarrow> l)
    \<longrightarrow> mask_keep_last cfg num last_arg = filter isdigit num
        \<and> list_all isdigit (mask_keep_last cfg num last_arg)
        \<and> CHR ''*'' \<notin> set (mask_keep_last cfg num last_arg))
   \<and> list_all (\<lambda>c. isdigit c \<or> c = CHR ''*'') (mask_keep_last cfg num any_last)"
proof -
  have short: "mask_keep_last cfg num last_arg = filter isdigit num"
    if "int (length (filter isdigit num))
          \<le> (case last_arg of None \<Rightarrow> mask_digits cfg | Some l \<Rightarrow> l)"
    using that by (simp add: mask_keep_last_def Let_def)
  have digs: "list_all isdigit (filter isdigit num)"
    by (simp add: list_all_iff)
  have nostar: "CHR ''*'' \<notin> set (filter isdigit num)"
    using isdigit_star by auto
  have all: "list_all (\<lambda>c. isdigit c \<or> c = CHR ''*'') (mask_keep_last cfg num any_last)"
    by (rule mask_keep_last_chars)
  show ?thesis using short digs nostar all by simp
qed

theorem mask_keep_last_short_clear_witness:
  "mask_keep_last (tok_setup_default_config no_overrides) ''+91-12'' None = ''9112''
   \<and> mask_keep_last (tok_setup_default_config no_overrides) ''98-7654-3210'' None = ''******3210''"
proof -
  let ?cfg = "tok_setup_default_config no_overrides"
  have md: "mask_digits ?cfg = 4"
    by code_simp
  have f: "filter isdigit ''+91-12'' = ''9112''"
    by code_simp
  have h: "int (length (filter isdigit ''+91-12''))
             \<le> (case None of None \<Rightarrow> mask_digits ?cfg | Some l \<Rightarrow> l)"
    unfolding f md by simp
  have "mask_keep_last ?cfg ''+91-12'' None = filter isdigit ''+91-12''"
    using mask_keep_last_short_clear [where num = "''+91-12''" and last_arg = None and cfg = ?cfg] h
    by blast
  then have a: "mask_keep_last ?cfg ''+91-12'' None = ''9112''"
    unfolding f .
  have b: "mask_keep_last ?cfg ''98-7654-3210'' None = ''******3210''"
    by code_simp
  show ?thesis using a b by (rule conjI)
qed

section \<open>Card numbers: length, digits, prefix and Luhn validity\<close>




























section \<open>Numeric perturbation\<close>



















end
